theory Spec2Isabelle
  imports Main "HOL-Library.Sublist" "HOL-Library.AList"
begin

section \<open>Python values used by the synthesizer\<close>

text \<open>
  A Python \<open>str\<close> is a sequence of Unicode code points, and \<open>len\<close> counts code points, so
  text is a list of code points. \<open>lit\<close> turns an ASCII literal into such a list; the
  emoji of the source's literals are written as their code points.
\<close>

type_synonym pystr = "nat list"

definition lit :: "string \<Rightarrow> pystr" where
  "lit s = map of_char s"

text \<open>
  A tool output is text, a mapping, or something else. Of a mapping the synthesizer reads
  only its keys (\<open>len\<close>, \<open>in\<close>) and its \<open>str()\<close> rendering (inside an f-string), so
  \<open>PDict ks t\<close> is a mapping with the keys \<open>ks\<close> whose rendering is \<open>t\<close>. \<open>POther t\<close>
  is a scalar that is neither text nor mapping (\<open>None\<close>, a boolean, a number), whose
  \<open>str()\<close> is \<open>t\<close>; such a value has no \<open>len\<close> and none of the string methods.
\<close>

datatype pyval = PStr pystr | PDict "pystr list" pystr | POther pystr

datatype py_error = AttributeError | TypeError

definition ebind :: "'e + 'a \<Rightarrow> ('a \<Rightarrow> 'e + 'b) \<Rightarrow> 'e + 'b" where
  "ebind m f = (case m of Inl e \<Rightarrow> Inl e | Inr x \<Rightarrow> f x)"

text \<open>\<open>len(v)\<close>\<close>

fun py_len :: "pyval \<Rightarrow> py_error + nat" where
  "py_len (PStr s) = Inr (length s)"
| "py_len (PDict ks t) = Inr (length ks)"
| "py_len (POther t) = Inl TypeError"

text \<open>\<open>v.startswith(p)\<close>\<close>

fun py_startswith :: "pyval \<Rightarrow> pystr \<Rightarrow> py_error + bool" where
  "py_startswith (PStr s) p = Inr (prefix p s)"
| "py_startswith (PDict ks t) p = Inl AttributeError"
| "py_startswith (POther t) p = Inl AttributeError"

text \<open>\<open>v + s\<close> for a text \<open>s\<close>\<close>

fun py_add_str :: "pyval \<Rightarrow> pystr \<Rightarrow> py_error + pystr" where
  "py_add_str (PStr t) s = Inr (t @ s)"
| "py_add_str (PDict ks t) s = Inl TypeError"
| "py_add_str (POther t) s = Inl TypeError"

text \<open>\<open>needle in v\<close>: substring test on text, key test on a mapping\<close>

fun py_contains :: "pystr \<Rightarrow> pyval \<Rightarrow> py_error + bool" where
  "py_contains needle (PStr s) = Inr (sublist needle s)"
| "py_contains needle (PDict ks t) = Inr (needle \<in> set ks)"
| "py_contains needle (POther t) = Inl TypeError"

text \<open>\<open>f"{v}"\<close>\<close>

fun py_format :: "pyval \<Rightarrow> pystr" where
  "py_format (PStr s) = s"
| "py_format (PDict ks t) = t"
| "py_format (POther t) = t"

text \<open>
  \<open>v[:n]\<close>. Subscripting a mapping with a slice raises (\<open>TypeError\<close>, the slice being
  unhashable; Python 3.12 and later raise \<open>KeyError\<close> instead).
\<close>

fun py_take :: "nat \<Rightarrow> pyval \<Rightarrow> py_error + pystr" where
  "py_take n (PStr s) = Inr (take n s)"
| "py_take n (PDict ks t) = Inl TypeError"
| "py_take n (POther t) = Inl TypeError"

text \<open>
  \<open>str.lower()\<close>. On ASCII it maps \<open>A\<close>..\<open>Z\<close> to \<open>a\<close>..\<open>z\<close>. Above ASCII, Python's
  mapping is the Unicode one; it is left out here (such a code point is kept as it is).
  The synthesizer only tests whether \<open>successfully created\<close> or \<open>generated\<close> occurs in
  the lowered text, and no code point above ASCII lowers to a letter of these two words,
  so the two tests are the same.
\<close>

definition lower_cp :: "nat \<Rightarrow> nat" where
  "lower_cp c = (if 65 \<le> c \<and> c \<le> 90 then c + 32 else c)"

definition lower :: "pystr \<Rightarrow> pystr" where
  "lower s = map lower_cp s"

text \<open>\<open>str.strip()\<close> removes the code points for which \<open>str.isspace\<close> holds at both ends.\<close>

definition py_isspace :: "nat \<Rightarrow> bool" where
  "py_isspace c \<longleftrightarrow>
     (9 \<le> c \<and> c \<le> 13) \<or> (28 \<le> c \<and> c \<le> 32) \<or> c = 0x85 \<or> c = 0xA0 \<or> c = 0x1680 \<or>
     (0x2000 \<le> c \<and> c \<le> 0x200A) \<or> c = 0x2028 \<or> c = 0x2029 \<or> c = 0x202F \<or>
     c = 0x205F \<or> c = 0x3000"

definition strip :: "pystr \<Rightarrow> pystr" where
  "strip s = rev (dropWhile py_isspace (rev (dropWhile py_isspace s)))"

text \<open>\<open>s.split('\n')\<close>\<close>

fun split_lines :: "pystr \<Rightarrow> pystr list" where
  "split_lines [] = [[]]"
| "split_lines (c # cs) =
     (if c = 10 then [] # split_lines cs
      else (case split_lines cs of [] \<Rightarrow> [[c]] | l # ls \<Rightarrow> (c # l) # ls))"

fun py_split_lines :: "pyval \<Rightarrow> py_error + pystr list" where
  "py_split_lines (PStr s) = Inr (split_lines s)"
| "py_split_lines (PDict ks t) = Inl AttributeError"
| "py_split_lines (POther t) = Inl AttributeError"

text \<open>\<open>sep.join(xs)\<close>\<close>

fun join :: "pystr \<Rightarrow> pystr list \<Rightarrow> pystr" where
  "join sep [] = []"
| "join sep [x] = x"
| "join sep (x # y # ys) = x @ sep @ join sep (y # ys)"

text \<open>\<open>str(n)\<close> for a list length \<open>n\<close>: its decimal digits\<close>

fun str_nat :: "nat \<Rightarrow> pystr" where
  "str_nat n = (if n < 10 then [48 + n] else str_nat (n div 10) @ [48 + n mod 10])"

section \<open>Tool result records\<close>

text \<open>
  A result record is a dictionary read only through \<open>get\<close>; a field is \<open>None\<close> when the
  key is absent, and \<open>get\<close>'s default is used then.
\<close>

record tool_result =
  tool :: "pystr option"
  status :: "pystr option"
  output_value :: "pyval option"

definition get_output :: "tool_result \<Rightarrow> pyval" where
  "get_output result = (case output_value result of Some v \<Rightarrow> v | None \<Rightarrow> PStr [])"

definition text_output :: "tool_result \<Rightarrow> bool" where
  "text_output result = (case get_output result of PStr s \<Rightarrow> True | _ \<Rightarrow> False)"

definition is_success :: "tool_result \<Rightarrow> bool" where
  "is_success result \<longleftrightarrow> status result = Some (lit ''success'')"

section \<open>synthesize_answer\<close>

subsection \<open>Collecting the successful outputs (lines 26-42)\<close>

text \<open>
  \<open>outputs\<close> is a dictionary; \<open>AList.update\<close> overwrites the value of a key that is
  present and appends a new key, as assignment to a Python dictionary does.
\<close>

type_synonym outputs = "(pystr \<times> pyval) list"

definition tool_name :: "tool_result \<Rightarrow> pystr" where
  "tool_name result = (case tool result of Some t \<Rightarrow> t | None \<Rightarrow> lit ''unknown'')"

definition store_result :: "outputs \<Rightarrow> tool_result \<Rightarrow> outputs" where
  "store_result outputs result =
     (if is_success result then
        (case get_output result of
           PDict ks t \<Rightarrow> AList.update (tool_name result) (PDict ks t) outputs
         | PStr s \<Rightarrow>
             if s \<noteq> [] \<and> \<not> prefix (lit ''Error:'') s
             then AList.update (tool_name result) (PStr s) outputs else outputs
         | POther t \<Rightarrow> AList.update (tool_name result) (PStr t) outputs)
      else outputs)"

definition collect_outputs :: "tool_result list \<Rightarrow> outputs" where
  "collect_outputs execution_results = foldl store_result [] execution_results"

text \<open>
  The rule of the Outcome Filter in the specification's words, with the empty text added
  to the exclusions: a record counts when its status is success and, if its output is
  text, the text is neither empty nor starts with the error marker; what is stored for it
  is its output, coerced to text when it is neither text nor mapping.
\<close>

definition qualifies :: "tool_result \<Rightarrow> bool" where
  "qualifies r \<longleftrightarrow>
     is_success r \<and> (case get_output r of PStr s \<Rightarrow> s \<noteq> [] \<and> \<not> prefix (lit ''Error:'') s | _ \<Rightarrow> True)"

definition stored_value :: "tool_result \<Rightarrow> pyval" where
  "stored_value r = (case get_output r of POther t \<Rightarrow> PStr t | v \<Rightarrow> v)"

definition no_results_notice :: pystr where
  "no_results_notice =
     [0x274C] @ lit '' **No results were generated.** The query could not be processed successfully.''"

definition title :: "pystr \<Rightarrow> pystr" where
  "title user_query = lit ''# '' @ [0x1F4D6] @ lit '' Answer to: '' @ user_query @ [10, 10]"

subsection \<open>Tracking generated files (lines 95-102 and 163-170, the same loop twice)\<close>

fun scan_output :: "pyval \<Rightarrow> py_error + (pystr \<times> pystr) list" where
  "scan_output (PStr s) =
     Inr (if sublist (lit ''successfully created'') (lower s) \<or> sublist (lit ''generated'') (lower s)
          then (if sublist (lit ''.png'') s \<or> sublist (lit ''Chart'') s then [(lit ''chart'', s)]
                else if sublist (lit ''.pdf'') s \<or> sublist (lit ''PDF'') s then [(lit ''pdf'', s)]
                else [])
          else [])"
| "scan_output (PDict ks t) = Inl AttributeError"
| "scan_output (POther t) = Inl AttributeError"

fun track_files :: "tool_result list \<Rightarrow> (pystr \<times> pystr) list \<Rightarrow> py_error + (pystr \<times> pystr) list" where
  "track_files [] files_generated = Inr files_generated"
| "track_files (result # rest) files_generated =
     ebind (scan_output (get_output result)) (\<lambda>found. track_files rest (files_generated @ found))"

subsection \<open>Rendering the generated files (lines 104-111 and 179-186)\<close>

definition resources_heading :: pystr where
  "resources_heading = lit ''## '' @ [0x1F4CA] @ lit '' Generated Resources'' @ [10, 10]"

definition render_file :: "pystr \<times> pystr \<Rightarrow> pystr" where
  "render_file f =
     (if fst f = lit ''chart'' then [0x1F4C8] @ lit '' '' @ snd f @ [10]
      else [0x1F4C4] @ lit '' '' @ snd f @ [10])"

definition add_resources :: "(pystr \<times> pystr) list \<Rightarrow> pystr \<Rightarrow> pystr" where
  "add_resources files_generated answer =
     (if files_generated \<noteq> []
      then foldl (\<lambda>a f. a @ render_file f) (answer @ resources_heading) files_generated @ [10]
      else answer)"

definition rule_line :: pystr where
  "rule_line = lit ''---'' @ [10, 10]"

subsection \<open>Strategy 1: the QA engine's answer is the answer (lines 51-116)\<close>

definition qa_substantial :: "pyval \<Rightarrow> py_error + bool" where
  "qa_substantial qa_answer =
     ebind (py_len qa_answer) (\<lambda>n.
       if n > 300 then ebind (py_startswith qa_answer (lit ''I'm sorry'')) (\<lambda>b. Inr (\<not> b))
       else Inr False)"

definition sources_title :: pystr where
  "sources_title = lit ''## '' @ [0x1F4DA] @ lit '' Factual Sources Used (Verify Claims Above)''"

definition sources_heading :: pystr where
  "sources_heading = sources_title @ [10, 10]"

definition sources_intro :: pystr where
  "sources_intro =
     lit ''*The AI answer above is grounded in the following factual sources. Cross-reference to verify accuracy:*''
     @ [10, 10]"

definition qa_arxiv :: "outputs \<Rightarrow> pystr \<times> bool \<Rightarrow> py_error + pystr \<times> bool" where
  "qa_arxiv outputs st =
     (case map_of outputs (lit ''arxiv_summarizer'') of
        None \<Rightarrow> Inr st
      | Some v \<Rightarrow>
          ebind (py_len v) (\<lambda>n.
            if n > 50 then
              ebind (py_add_str v [10, 10]) (\<lambda>s.
                Inr (fst st @ lit ''### '' @ [0x1F52C] @ lit '' Academic Papers Found'' @ [10, 10] @ s, True))
            else Inr st))"

definition qa_wikipedia :: "outputs \<Rightarrow> pystr \<times> bool \<Rightarrow> py_error + pystr \<times> bool" where
  "qa_wikipedia outputs st =
     (case map_of outputs (lit ''wikipedia_search'') of
        None \<Rightarrow> Inr st
      | Some wiki_text \<Rightarrow>
          ebind (py_len wiki_text) (\<lambda>n.
            if n > 50 then
              (let answer = fst st @ lit ''### '' @ [0x1F4D6] @ lit '' Wikipedia Background'' @ [10, 10]
               in if n > 800 then
                    ebind (py_take 800 wiki_text) (\<lambda>first.
                      Inr (answer @ first @ lit ''...'' @ [10, 10]
                           @ lit ''<details><summary>Show full Wikipedia content</summary>'' @ [10, 10]
                           @ py_format wiki_text @ [10, 10] @ lit ''</details>'' @ [10, 10], True))
                  else ebind (py_add_str wiki_text [10, 10]) (\<lambda>s. Inr (answer @ s, True)))
            else Inr st))"

definition qa_news :: "outputs \<Rightarrow> pystr \<times> bool \<Rightarrow> py_error + pystr \<times> bool" where
  "qa_news outputs st =
     (case map_of outputs (lit ''news_fetcher'') of
        None \<Rightarrow> Inr st
      | Some v \<Rightarrow>
          ebind (py_len v) (\<lambda>n.
            if n > 50 then
              ebind (py_add_str v [10, 10]) (\<lambda>s.
                Inr (fst st @ lit ''### '' @ [0x1F4F0] @ lit '' Recent News Articles'' @ [10, 10] @ s, True))
            else Inr st))"

definition no_sources_note :: pystr where
  "no_sources_note =
     lit ''*Note: This answer is based on the LLM's general knowledge. No specific research papers or news articles were retrieved for verification.*''
     @ [10, 10]"

definition qa_footer :: pystr where
  "qa_footer =
     [0x2705] @ lit '' **Analysis Complete** | Comprehensive answer generated using AI with supporting research from multiple sources.''
     @ [10]"

definition qa_primary ::
  "outputs \<Rightarrow> tool_result list \<Rightarrow> pyval \<Rightarrow> pystr \<Rightarrow> py_error + pystr" where
  "qa_primary outputs execution_results qa_answer answer =
     ebind (py_add_str qa_answer [10, 10]) (\<lambda>s.
     ebind (qa_arxiv outputs (answer @ s @ rule_line @ sources_heading @ sources_intro, False)) (\<lambda>st1.
     ebind (qa_wikipedia outputs st1) (\<lambda>st2.
     ebind (qa_news outputs st2) (\<lambda>st3.
     ebind (track_files execution_results []) (\<lambda>files_generated.
       Inr (add_resources files_generated
              (if snd st3 then fst st3 else fst st3 @ no_sources_note)
            @ rule_line @ qa_footer))))))"

subsection \<open>The section synthesizers (lines 195-274)\<close>

definition arxiv_demo :: "pystr \<Rightarrow> pystr" where
  "arxiv_demo query =
     lit ''Based on the academic research related to **'' @ [34] @ query @ [34]
       @ lit ''**, several important papers have been published:'' @ [10, 10]
     @ lit ''**Research Themes:**'' @ [10]
     @ lit ''- The field shows active research with multiple recent publications'' @ [10]
     @ lit ''- Key areas of focus include theoretical foundations and practical applications'' @ [10]
     @ lit ''- Current work explores novel approaches and methodologies'' @ [10, 10]
     @ lit ''**Note:** This is a demonstration of the ArXiv integration. In a live system with a valid ArXiv API connection, you would see actual paper titles, authors, abstracts, and publication details from the research database.''
     @ [10, 10]
     @ lit ''To access real academic papers, ensure:'' @ [10]
     @ lit ''1. Internet connectivity is available'' @ [10]
     @ lit ''2. The ArXiv API is accessible'' @ [10]
     @ lit ''3. Your query matches indexed research topics''"

definition synthesize_arxiv_papers :: "pystr \<Rightarrow> pyval \<Rightarrow> py_error + pystr" where
  "synthesize_arxiv_papers query arxiv_output =
     ebind (py_contains (lit ''Sample Paper'') arxiv_output) (\<lambda>mock.
       if mock then Inr (arxiv_demo query)
       else ebind (py_split_lines arxiv_output) (\<lambda>lines.
         Inr (foldl (\<lambda>summary line.
                  if prefix (lit ''**'') (strip line)
                  then summary @ lit ''- '' @ strip line @ [10] else summary)
                (lit ''Found relevant academic research on **'' @ query @ lit ''**:'' @ [10, 10])
                lines)))"

definition no_news :: "pystr \<Rightarrow> pystr" where
  "no_news query =
     lit ''No recent news articles were found specifically about '' @ query
     @ lit ''. This could mean:'' @ [10]
     @ lit ''- The topic is highly specialized'' @ [10]
     @ lit ''- No major news coverage in recent days'' @ [10]
     @ lit ''- Try a broader search term for more results''"

definition synthesize_news :: "pystr \<Rightarrow> pyval \<Rightarrow> py_error + pystr" where
  "synthesize_news query news_output =
     ebind (py_contains (lit ''No recent news'') news_output) (\<lambda>none.
     ebind (if none then Inr True else ebind (py_len news_output) (\<lambda>n. Inr (n < 100))) (\<lambda>short.
       if short then Inr (no_news query)
       else ebind (py_split_lines news_output) (\<lambda>lines.
         Inr (foldl (\<lambda>summary line.
                  if sublist (lit ''**Article'') line \<or> sublist (lit ''**Title'') line
                  then summary @ lit ''- '' @ strip line @ [10] else summary)
                (lit ''Recent news coverage on **'' @ query @ lit ''**:'' @ [10, 10])
                lines))))"

definition has_key :: "outputs \<Rightarrow> pystr \<Rightarrow> bool" where
  "has_key outputs k \<longleftrightarrow> map_of outputs k \<noteq> None"

definition insights :: "pystr \<Rightarrow> outputs \<Rightarrow> pystr list" where
  "insights query outputs =
     (if has_key outputs (lit ''wikipedia_search'')
      then [[0x2713] @ lit '' **Foundational knowledge** about '' @ query
              @ lit '' has been retrieved from Wikipedia'']
      else [])
     @ (if has_key outputs (lit ''arxiv_summarizer'')
        then [[0x2713] @ lit '' **Academic research papers** have been identified and summarized'']
        else [])
     @ (if has_key outputs (lit ''news_fetcher'')
        then [[0x2713] @ lit '' **Current news** and recent developments have been analyzed'']
        else [])
     @ (if has_key outputs (lit ''sentiment_analyzer'')
        then [[0x2713] @ lit '' **Sentiment analysis** provides insights into public perception'']
        else [])
     @ (if has_key outputs (lit ''qa_engine'')
        then [[0x2713] @ lit '' **Direct answer** has been generated based on available knowledge'']
        else [])"

definition generate_key_insights :: "pystr \<Rightarrow> outputs \<Rightarrow> pystr" where
  "generate_key_insights query outputs =
     (if insights query outputs = [] then
        lit ''Based on the available information, here's what we know about **'' @ query
        @ lit ''**: The system has gathered relevant data from multiple sources to provide you with a comprehensive overview.''
      else
        lit ''**Information Sources:**'' @ [10] @ join [10] (insights query outputs)
        @ [10, 10] @ lit ''This comprehensive analysis of **'' @ query
        @ lit ''** combines information from multiple authoritative sources to give you a complete picture.'')"

subsection \<open>Strategy 2: sections from the available outputs (lines 123-192)\<close>

definition background_heading :: pystr where
  "background_heading = lit ''## '' @ [0x1F4DA] @ lit '' Background'' @ [10, 10]"

definition fb_wikipedia :: "outputs \<Rightarrow> pystr \<times> bool \<Rightarrow> py_error + pystr \<times> bool" where
  "fb_wikipedia outputs st =
     (case map_of outputs (lit ''wikipedia_search'') of
        None \<Rightarrow> Inr st
      | Some wiki_output \<Rightarrow>
          ebind (py_len wiki_output) (\<lambda>n.
            if n > 50 then
              ebind (py_add_str wiki_output [10, 10]) (\<lambda>s. Inr (fst st @ background_heading @ s, True))
            else Inr st))"

definition fb_arxiv :: "pystr \<Rightarrow> outputs \<Rightarrow> pystr \<times> bool \<Rightarrow> py_error + pystr \<times> bool" where
  "fb_arxiv user_query outputs st =
     (case map_of outputs (lit ''arxiv_summarizer'') of
        None \<Rightarrow> Inr st
      | Some arxiv_output \<Rightarrow>
          ebind (py_contains (lit ''Found'') arxiv_output) (\<lambda>found.
          ebind (if found then py_contains (lit ''papers'') arxiv_output else Inr False) (\<lambda>both.
            if both then
              ebind (synthesize_arxiv_papers user_query arxiv_output) (\<lambda>s.
                Inr (fst st @ lit ''## '' @ [0x1F52C] @ lit '' Academic Research'' @ [10, 10]
                     @ s @ [10, 10], True))
            else Inr st)))"

definition fb_news :: "pystr \<Rightarrow> outputs \<Rightarrow> pystr \<times> bool \<Rightarrow> py_error + pystr \<times> bool" where
  "fb_news user_query outputs st =
     (case map_of outputs (lit ''news_fetcher'') of
        None \<Rightarrow> Inr st
      | Some news_output \<Rightarrow>
          ebind (py_len news_output) (\<lambda>n.
            if n > 50 then
              ebind (synthesize_news user_query news_output) (\<lambda>s.
                Inr (fst st @ lit ''## '' @ [0x1F4F0] @ lit '' Recent Developments'' @ [10, 10]
                     @ s @ [10, 10], True))
            else Inr st))"

definition fb_sentiment :: "outputs \<Rightarrow> pystr \<times> bool \<Rightarrow> py_error + pystr \<times> bool" where
  "fb_sentiment outputs st =
     (case map_of outputs (lit ''sentiment_analyzer'') of
        None \<Rightarrow> Inr st
      | Some sentiment_output \<Rightarrow>
          ebind (py_len sentiment_output) (\<lambda>n.
            if n > 20 then
              ebind (py_add_str sentiment_output [10, 10]) (\<lambda>s.
                Inr (fst st @ lit ''## '' @ [0x1F4AD] @ lit '' Sentiment Analysis'' @ [10, 10] @ s, True))
            else Inr st))"

definition insights_title :: pystr where
  "insights_title = lit ''## '' @ [0x1F3AF] @ lit '' Key Insights''"

definition insights_heading :: pystr where
  "insights_heading = insights_title @ [10, 10]"

definition footer :: pystr where
  "footer =
     [0x2705] @ lit '' **Analysis Complete** | Information gathered from multiple sources and synthesized for your query.''
     @ [10]"

definition fallback ::
  "pystr \<Rightarrow> outputs \<Rightarrow> tool_result list \<Rightarrow> pystr \<Rightarrow> py_error + pystr" where
  "fallback user_query outputs execution_results answer =
     ebind (fb_wikipedia outputs (answer, False)) (\<lambda>st1.
     ebind (fb_arxiv user_query outputs st1) (\<lambda>st2.
     ebind (fb_news user_query outputs st2) (\<lambda>st3.
     ebind (fb_sentiment outputs st3) (\<lambda>st4.
     ebind (track_files execution_results []) (\<lambda>files_generated.
       Inr (add_resources files_generated
              (if snd st4
               then fst st4 @ insights_heading @ generate_key_insights user_query outputs @ [10, 10]
               else fst st4)
            @ rule_line @ footer))))))"

subsection \<open>The entry point (lines 12-192); the plan argument is never read\<close>

definition quick_answer :: "pyval \<Rightarrow> pystr" where
  "quick_answer qa_answer =
     lit ''## '' @ [0x1F4A1] @ lit '' Quick Answer'' @ [10, 10] @ py_format qa_answer @ [10, 10]
     @ rule_line"

definition synthesize_answer :: "pystr \<Rightarrow> tool_result list \<Rightarrow> py_error + pystr" where
  "synthesize_answer user_query execution_results =
     (let outputs = collect_outputs execution_results in
      if outputs = [] then Inr no_results_notice
      else
        (case map_of outputs (lit ''qa_engine'') of
           Some qa_answer \<Rightarrow>
             ebind (qa_substantial qa_answer) (\<lambda>substantial.
               if substantial
               then qa_primary outputs execution_results qa_answer (title user_query)
               else fallback user_query outputs execution_results
                      (title user_query @ quick_answer qa_answer))
         | None \<Rightarrow> fallback user_query outputs execution_results (title user_query)))"

section \<open>create_executive_summary (lines 277-310)\<close>

definition successful_tools :: "tool_result list \<Rightarrow> pystr list" where
  "successful_tools execution_results =
     map (\<lambda>r. case tool r of Some t \<Rightarrow> t | None \<Rightarrow> [])
         (filter is_success execution_results)"

definition create_executive_summary :: "pystr \<Rightarrow> tool_result list \<Rightarrow> pystr" where
  "create_executive_summary user_query execution_results =
     (let tools = successful_tools execution_results in
      if tools = [] then lit ''No results could be generated for this query.''
      else
        lit ''Regarding **'' @ user_query @ lit ''**: ''
        @ (if lit ''qa_engine'' \<in> set tools
           then lit ''A direct answer has been provided based on available knowledge. '' else [])
        @ (if lit ''wikipedia_search'' \<in> set tools
           then lit ''Background information has been retrieved from Wikipedia. '' else [])
        @ (if lit ''arxiv_summarizer'' \<in> set tools
           then lit ''Academic research papers have been identified and summarized. '' else [])
        @ (if lit ''news_fetcher'' \<in> set tools
           then lit ''Recent news articles have been analyzed. '' else [])
        @ lit ''Total of '' @ str_nat (length tools) @ lit '' information sources consulted.'')"

section \<open>Auxiliary notions for the proofs\<close>

text \<open>Every stored output is text.\<close>

definition text_values :: "outputs \<Rightarrow> bool" where
  "text_values outs \<longleftrightarrow> (\<forall>k v. map_of outs k = Some v \<longrightarrow> (\<exists>s. v = PStr s))"

text \<open>The text \<open>x\<close> does not contain \<open>h\<close>, and is empty or ends with a newline.\<close>

definition ends_free :: "pystr \<Rightarrow> pystr \<Rightarrow> bool" where
  "ends_free h x \<longleftrightarrow> \<not> sublist h x \<and> (x = [] \<or> last x = 10)"


text \<open>
  What the proofs need of a heading \<open>h\<close> looked for in an answer: it has no newline and
  none of the two resource glyphs, does not start with a blank, and occurs neither in the
  resources heading nor in the horizontal rule.
\<close>

definition plain_needle :: "pystr \<Rightarrow> bool" where
  "plain_needle h \<longleftrightarrow>
     h \<noteq> [] \<and> hd h \<noteq> 32 \<and> 10 \<notin> set h \<and> 0x1F4C8 \<notin> set h \<and> 0x1F4C4 \<notin> set h
     \<and> \<not> sublist h resources_heading \<and> \<not> sublist h rule_line"

section \<open>Basic facts\<close>

lemma ebind_Inr [simp]: "ebind (Inr x) f = f x"
  by (simp add: ebind_def)

lemma ebind_Inl [simp]: "ebind (Inl e) f = Inl e"
  by (simp add: ebind_def)

lemma ebind_eq_Inr: "ebind m f = Inr y \<longleftrightarrow> (\<exists>x. m = Inr x \<and> f x = Inr y)"
  by (cases m) simp_all

section \<open>The Outcome Filter\<close>

lemma store_result_skip:
  "\<not> qualifies r \<Longrightarrow> store_result outs r = outs"
  by (auto simp: store_result_def qualifies_def split: pyval.splits)

lemma collect_outputs_none:
  "\<forall>r\<in>set rs. \<not> qualifies r \<Longrightarrow> foldl store_result outs rs = outs"
  by (induction rs arbitrary: outs) (simp_all add: store_result_skip)

lemma foldl_store_map_of:
  "map_of (foldl store_result acc rs) k =
     (case filter (\<lambda>r. qualifies r \<and> tool_name r = k) rs of
        [] \<Rightarrow> map_of acc k
      | q # qs \<Rightarrow> Some (stored_value (last (q # qs))))"
proof (induction rs rule: rev_induct)
  case Nil
  then show ?case by simp
next
  case (snoc r rs)
  show ?case
  proof (cases "qualifies r")
    case True
    then have "store_result (foldl store_result acc rs) r
                 = AList.update (tool_name r) (stored_value r) (foldl store_result acc rs)"
      by (auto simp: store_result_def qualifies_def tool_name_def stored_value_def is_success_def
               split: pyval.splits)
    then show ?thesis using True snoc
      by (auto simp: update_conv' split: list.splits)
  next
    case False
    then have "store_result (foldl store_result acc rs) r = foldl store_result acc rs"
      by (auto simp: store_result_def qualifies_def is_success_def split: pyval.splits)
    then show ?thesis using False snoc by simp
  qed
qed

subsection \<open>What the filter keeps\<close>

lemma collect_outputs_value:
  assumes "map_of (collect_outputs rs) k = Some v"
  shows "\<exists>r\<in>set rs. qualifies r \<and> tool_name r = k \<and> v = stored_value r"
proof -
  let ?qs = "filter (\<lambda>r. qualifies r \<and> tool_name r = k) rs"
  from assms have ne: "?qs \<noteq> []" and v: "v = stored_value (last ?qs)"
    by (auto simp: collect_outputs_def foldl_store_map_of split: list.splits)
  from ne have "last ?qs \<in> set ?qs" by (rule last_in_set)
  with v show ?thesis by auto
qed


lemma collect_outputs_text_values:
  assumes "list_all text_output rs"
  shows "text_values (collect_outputs rs)"
  unfolding text_values_def
proof (intro allI impI)
  fix k v assume "map_of (collect_outputs rs) k = Some v"
  then obtain r where "r \<in> set rs" "v = stored_value r"
    using collect_outputs_value by blast
  with assms have "text_output r" by (simp add: list_all_iff)
  with \<open>v = stored_value r\<close> show "\<exists>s. v = PStr s"
    by (auto simp: stored_value_def text_output_def split: pyval.splits)
qed

text \<open>
  Claim C3, as amended. The filter stores a record exactly when its status is success and,
  if its output is text, the text is non-empty and does not start with \<open>Error:\<close>; a
  mapping output of a success record is always stored, any other non-text output is stored
  as its text. Under a tool identifier the mapping holds what the last such record with
  that identifier stores, and nothing when there is none.
\<close>

theorem outcome_filter_rule:
  "map_of (collect_outputs rs) k =
     (case filter (\<lambda>r. qualifies r \<and> tool_name r = k) rs of
        [] \<Rightarrow> None
      | q # qs \<Rightarrow> Some (stored_value (last (q # qs))))"
  by (simp add: collect_outputs_def foldl_store_map_of split: list.splits)

theorem outcome_filter_rule_witness:
  "map_of (collect_outputs
       [\<lparr>tool = Some (lit ''a''), status = Some (lit ''success''), output_value = Some (PStr (lit ''first''))\<rparr>,
        \<lparr>tool = Some (lit ''b''), status = Some (lit ''success''), output_value = Some (PDict [lit ''k''] (lit ''{k: 1}''))\<rparr>,
        \<lparr>tool = Some (lit ''a''), status = Some (lit ''success''), output_value = Some (PStr (lit ''second''))\<rparr>,
        \<lparr>tool = Some (lit ''a''), status = Some (lit ''failure''), output_value = Some (PStr (lit ''third''))\<rparr>])
     (lit ''a'') = Some (PStr (lit ''second''))"
  using outcome_filter_rule [of
       "[\<lparr>tool = Some (lit ''a''), status = Some (lit ''success''), output_value = Some (PStr (lit ''first''))\<rparr>,
        \<lparr>tool = Some (lit ''b''), status = Some (lit ''success''), output_value = Some (PDict [lit ''k''] (lit ''{k: 1}''))\<rparr>,
        \<lparr>tool = Some (lit ''a''), status = Some (lit ''success''), output_value = Some (PStr (lit ''second''))\<rparr>,
        \<lparr>tool = Some (lit ''a''), status = Some (lit ''failure''), output_value = Some (PStr (lit ''third''))\<rparr>]"
       "lit ''a''"]
  by (simp add: qualifies_def is_success_def get_output_def tool_name_def stored_value_def lit_def)

text \<open>
  Claim C3 as stated fails at a success record whose output is the empty text: the text
  does not start with \<open>Error:\<close>, and yet nothing is stored under the tool identifier.
\<close>

theorem empty_text_not_stored:
  "is_success \<lparr>tool = Some (lit ''t''), status = Some (lit ''success''), output_value = Some (PStr [])\<rparr>
   \<and> \<not> prefix (lit ''Error:'') []
   \<and> map_of (collect_outputs
         [\<lparr>tool = Some (lit ''t''), status = Some (lit ''success''), output_value = Some (PStr [])\<rparr>])
       (lit ''t'') = None"
  by (simp add: is_success_def collect_outputs_def store_result_def get_output_def lit_def)

section \<open>The scan for generated files and their rendering\<close>

lemma track_files_total:
  "list_all text_output rs \<Longrightarrow> \<exists>fs. track_files rs acc = Inr fs"
proof (induction rs arbitrary: acc)
  case Nil
  then show ?case by simp
next
  case (Cons r rs)
  then obtain s where "get_output r = PStr s"
    by (auto simp: text_output_def split: pyval.splits)
  with Cons show ?case by simp
qed

lemma track_files_mono:
  "track_files rs acc = Inr fs \<Longrightarrow> \<exists>more. fs = acc @ more"
proof (induction rs arbitrary: acc)
  case Nil
  then show ?case by simp
next
  case (Cons r rs)
  then obtain found where "track_files rs (acc @ found) = Inr fs"
    by (auto simp: ebind_eq_Inr)
  with Cons.IH show ?case by fastforce
qed

lemma track_files_sources:
  "track_files rs acc = Inr fs \<Longrightarrow> f \<in> set fs \<Longrightarrow>
     f \<in> set acc \<or> (\<exists>r\<in>set rs. get_output r = PStr (snd f))"
proof (induction rs arbitrary: acc)
  case Nil
  then show ?case by simp
next
  case (Cons r rs)
  then obtain found where sc: "scan_output (get_output r) = Inr found"
    and tr: "track_files rs (acc @ found) = Inr fs"
    by (auto simp: ebind_eq_Inr)
  from Cons.IH [OF tr Cons.prems(2)]
  consider "f \<in> set acc" | "f \<in> set found" | "\<exists>r\<in>set rs. get_output r = PStr (snd f)"
    by auto
  then show ?case
  proof cases
    case 2
    with sc have "get_output r = PStr (snd f)"
      by (cases "get_output r") (auto split: if_splits)
    then show ?thesis by simp
  qed auto
qed

lemma track_files_finds:
  assumes "r \<in> set rs" "scan_output (get_output r) = Inr [f]" "track_files rs acc = Inr fs"
  shows "f \<in> set fs"
  using assms
proof (induction rs arbitrary: acc)
  case Nil
  then show ?case by simp
next
  case (Cons x rs)
  then obtain found where sc: "scan_output (get_output x) = Inr found"
    and tr: "track_files rs (acc @ found) = Inr fs"
    by (auto simp: ebind_eq_Inr)
  show ?case
  proof (cases "r = x")
    case True
    with sc Cons.prems(2) have "found = [f]" by simp
    moreover from track_files_mono [OF tr] obtain more where "fs = (acc @ found) @ more" ..
    ultimately show ?thesis by simp
  next
    case False
    with Cons.prems(1) have "r \<in> set rs" by simp
    from Cons.IH [OF this Cons.prems(2) tr] show ?thesis .
  qed
qed

subsection \<open>Rendering\<close>

lemma foldl_render:
  "foldl (\<lambda>a f. a @ render_file f) a fs = a @ concat (map render_file fs)"
  by (induction fs arbitrary: a) simp_all

lemma add_resources_eq:
  "add_resources fs a =
     a @ (if fs \<noteq> [] then resources_heading @ concat (map render_file fs) @ [10] else [])"
  by (simp add: add_resources_def foldl_render)

lemma add_resources_prefix: "prefix a (add_resources fs a)"
  by (simp add: add_resources_eq)

section \<open>The two strategies of the answer\<close>

subsection \<open>Primitive operations that succeed\<close>

lemma py_add_str_Inr: "py_add_str v s = Inr r \<longleftrightarrow> (\<exists>t. v = PStr t \<and> r = t @ s)"
  by (cases v) auto


lemma qa_substantial_text:
  "qa_substantial (PStr s) = Inr (length s > 300 \<and> \<not> prefix (lit ''I'm sorry'') s)"
  by (simp add: qa_substantial_def)

lemma qa_substantial_True:
  "qa_substantial v = Inr True \<Longrightarrow> \<exists>s. v = PStr s \<and> length s > 300 \<and> \<not> prefix (lit ''I'm sorry'') s"
  by (cases v) (auto simp: qa_substantial_def split: if_splits)

lemma synthesize_arxiv_papers_total: "\<exists>t. synthesize_arxiv_papers q (PStr s) = Inr t"
  by (simp add: synthesize_arxiv_papers_def)

lemma synthesize_news_total: "\<exists>t. synthesize_news q (PStr s) = Inr t"
  by (simp add: synthesize_news_def)

subsection \<open>Each block returns on text, and only appends\<close>

lemma text_valuesD: "text_values outs \<Longrightarrow> map_of outs k = Some v \<Longrightarrow> \<exists>s. v = PStr s"
  by (auto simp: text_values_def)

lemma qa_arxiv_total: "text_values outs \<Longrightarrow> \<exists>st'. qa_arxiv outs st = Inr st'"
  by (auto simp: qa_arxiv_def split: option.splits dest!: text_valuesD)

lemma qa_wikipedia_total: "text_values outs \<Longrightarrow> \<exists>st'. qa_wikipedia outs st = Inr st'"
  by (auto simp: qa_wikipedia_def Let_def split: option.splits dest!: text_valuesD)

lemma qa_news_total: "text_values outs \<Longrightarrow> \<exists>st'. qa_news outs st = Inr st'"
  by (auto simp: qa_news_def split: option.splits dest!: text_valuesD)

lemma fb_wikipedia_total: "text_values outs \<Longrightarrow> \<exists>st'. fb_wikipedia outs st = Inr st'"
  by (auto simp: fb_wikipedia_def split: option.splits dest!: text_valuesD)

lemma fb_arxiv_total: "text_values outs \<Longrightarrow> \<exists>st'. fb_arxiv q outs st = Inr st'"
  by (auto simp: fb_arxiv_def synthesize_arxiv_papers_def split: option.splits dest!: text_valuesD)

lemma fb_news_total: "text_values outs \<Longrightarrow> \<exists>st'. fb_news q outs st = Inr st'"
  by (auto simp: fb_news_def synthesize_news_def split: option.splits dest!: text_valuesD)

lemma fb_sentiment_total: "text_values outs \<Longrightarrow> \<exists>st'. fb_sentiment outs st = Inr st'"
  by (auto simp: fb_sentiment_def split: option.splits dest!: text_valuesD)

lemma qa_arxiv_prefix: "qa_arxiv outs st = Inr st' \<Longrightarrow> prefix (fst st) (fst st')"
  by (auto simp: qa_arxiv_def ebind_eq_Inr split: option.splits if_splits)

lemma qa_wikipedia_prefix: "qa_wikipedia outs st = Inr st' \<Longrightarrow> prefix (fst st) (fst st')"
  by (auto simp: qa_wikipedia_def Let_def ebind_eq_Inr split: option.splits if_splits)

lemma qa_news_prefix: "qa_news outs st = Inr st' \<Longrightarrow> prefix (fst st) (fst st')"
  by (auto simp: qa_news_def ebind_eq_Inr split: option.splits if_splits)

lemma fb_wikipedia_prefix: "fb_wikipedia outs st = Inr st' \<Longrightarrow> prefix (fst st) (fst st')"
  by (auto simp: fb_wikipedia_def ebind_eq_Inr split: option.splits if_splits)

lemma fb_arxiv_prefix: "fb_arxiv q outs st = Inr st' \<Longrightarrow> prefix (fst st) (fst st')"
  by (auto simp: fb_arxiv_def ebind_eq_Inr split: option.splits if_splits)

lemma fb_news_prefix: "fb_news q outs st = Inr st' \<Longrightarrow> prefix (fst st) (fst st')"
  by (auto simp: fb_news_def ebind_eq_Inr split: option.splits if_splits)

lemma fb_sentiment_prefix: "fb_sentiment outs st = Inr st' \<Longrightarrow> prefix (fst st) (fst st')"
  by (auto simp: fb_sentiment_def ebind_eq_Inr split: option.splits if_splits)

subsection \<open>The two strategies\<close>

lemma qa_primary_steps:
  assumes "qa_primary outs rs qa_answer answer = Inr a"
  obtains s st1 st2 st3 fs where
    "qa_answer = PStr s"
    "qa_arxiv outs (answer @ s @ [10, 10] @ rule_line @ sources_heading @ sources_intro, False) = Inr st1"
    "qa_wikipedia outs st1 = Inr st2"
    "qa_news outs st2 = Inr st3"
    "track_files rs [] = Inr fs"
    "a = add_resources fs (if snd st3 then fst st3 else fst st3 @ no_sources_note) @ rule_line @ qa_footer"
  using assms unfolding qa_primary_def ebind_eq_Inr py_add_str_Inr by auto

lemma fallback_steps:
  assumes "fallback q outs rs answer = Inr a"
  obtains st1 st2 st3 st4 fs where
    "fb_wikipedia outs (answer, False) = Inr st1"
    "fb_arxiv q outs st1 = Inr st2"
    "fb_news q outs st2 = Inr st3"
    "fb_sentiment outs st3 = Inr st4"
    "track_files rs [] = Inr fs"
    "a = add_resources fs
           (if snd st4 then fst st4 @ insights_heading @ generate_key_insights q outs @ [10, 10]
            else fst st4) @ rule_line @ footer"
  using assms unfolding fallback_def ebind_eq_Inr by auto

lemma qa_primary_prefix:
  assumes "qa_primary outs rs qa_answer answer = Inr a"
  shows "prefix (answer @ py_format qa_answer) a"
proof -
  from assms obtain s st1 st2 st3 fs where
    s: "qa_answer = PStr s" and
    1: "qa_arxiv outs (answer @ s @ [10, 10] @ rule_line @ sources_heading @ sources_intro, False) = Inr st1" and
    2: "qa_wikipedia outs st1 = Inr st2" and
    3: "qa_news outs st2 = Inr st3" and
    a: "a = add_resources fs (if snd st3 then fst st3 else fst st3 @ no_sources_note) @ rule_line @ qa_footer"
    by (rule qa_primary_steps)
  have "prefix (answer @ s) (fst st1)"
    using qa_arxiv_prefix [OF 1] by (auto simp: prefix_def)
  also have "prefix \<dots> (fst st2)" by (rule qa_wikipedia_prefix [OF 2])
  also have "prefix \<dots> (fst st3)" by (rule qa_news_prefix [OF 3])
  also have "prefix \<dots> (if snd st3 then fst st3 else fst st3 @ no_sources_note)" by simp
  also have "prefix \<dots> (add_resources fs (if snd st3 then fst st3 else fst st3 @ no_sources_note))"
    by (rule add_resources_prefix)
  also have "prefix \<dots> a" by (simp add: a)
  finally show ?thesis by (simp add: s)
qed

lemma fallback_prefix:
  assumes "fallback q outs rs answer = Inr a"
  shows "prefix answer a"
proof -
  from assms obtain st1 st2 st3 st4 fs where
    1: "fb_wikipedia outs (answer, False) = Inr st1" and
    2: "fb_arxiv q outs st1 = Inr st2" and
    3: "fb_news q outs st2 = Inr st3" and
    4: "fb_sentiment outs st3 = Inr st4" and
    a: "a = add_resources fs
           (if snd st4 then fst st4 @ insights_heading @ generate_key_insights q outs @ [10, 10]
            else fst st4) @ rule_line @ footer"
    by (rule fallback_steps)
  let ?x = "if snd st4 then fst st4 @ insights_heading @ generate_key_insights q outs @ [10, 10]
            else fst st4"
  have "prefix answer (fst st1)" using fb_wikipedia_prefix [OF 1] by simp
  also have "prefix \<dots> (fst st2)" by (rule fb_arxiv_prefix [OF 2])
  also have "prefix \<dots> (fst st3)" by (rule fb_news_prefix [OF 3])
  also have "prefix \<dots> (fst st4)" by (rule fb_sentiment_prefix [OF 4])
  also have "prefix \<dots> ?x" by simp
  also have "prefix \<dots> (add_resources fs ?x)" by (rule add_resources_prefix)
  also have "prefix \<dots> a" by (simp add: a)
  finally show ?thesis .
qed

lemma qa_primary_total:
  assumes "text_values outs" "list_all text_output rs"
  shows "\<exists>a. qa_primary outs rs (PStr s) answer = Inr a"
proof -
  obtain st1 where 1: "qa_arxiv outs (answer @ s @ [10, 10] @ rule_line @ sources_heading @ sources_intro, False) = Inr st1"
    using qa_arxiv_total [OF assms(1)] by blast
  obtain st2 where 2: "qa_wikipedia outs st1 = Inr st2"
    using qa_wikipedia_total [OF assms(1)] by blast
  obtain st3 where 3: "qa_news outs st2 = Inr st3"
    using qa_news_total [OF assms(1)] by blast
  obtain fs where 4: "track_files rs [] = Inr fs"
    using track_files_total [OF assms(2)] by blast
  show ?thesis using 1 2 3 4 by (simp add: qa_primary_def)
qed

lemma fallback_total:
  assumes "text_values outs" "list_all text_output rs"
  shows "\<exists>a. fallback q outs rs answer = Inr a"
proof -
  obtain st1 where 1: "fb_wikipedia outs (answer, False) = Inr st1"
    using fb_wikipedia_total [OF assms(1)] by blast
  obtain st2 where 2: "fb_arxiv q outs st1 = Inr st2"
    using fb_arxiv_total [OF assms(1)] by blast
  obtain st3 where 3: "fb_news q outs st2 = Inr st3"
    using fb_news_total [OF assms(1)] by blast
  obtain st4 where 4: "fb_sentiment outs st3 = Inr st4"
    using fb_sentiment_total [OF assms(1)] by blast
  obtain fs where 5: "track_files rs [] = Inr fs"
    using track_files_total [OF assms(2)] by blast
  show ?thesis using 1 2 3 4 5 by (simp add: fallback_def)
qed

lemma synthesize_answer_total:
  assumes "list_all text_output rs"
  shows "\<exists>a. synthesize_answer q rs = Inr a"
proof -
  have tv: "text_values (collect_outputs rs)"
    by (rule collect_outputs_text_values [OF assms])
  show ?thesis
  proof (cases "map_of (collect_outputs rs) (lit ''qa_engine'')")
    case None
    then show ?thesis
      using fallback_total [OF tv assms] by (simp add: synthesize_answer_def Let_def)
  next
    case (Some v)
    then obtain s where "v = PStr s" using text_valuesD [OF tv] by blast
    with Some show ?thesis
      using fallback_total [OF tv assms] qa_primary_total [OF tv assms]
      by (simp add: synthesize_answer_def Let_def qa_substantial_text)
  qed
qed

lemma synthesize_answer_cases:
  assumes "synthesize_answer q rs = Inr a"
  obtains
    (empty) "collect_outputs rs = []" "a = no_results_notice"
  | (primary) s where "collect_outputs rs \<noteq> []"
      "map_of (collect_outputs rs) (lit ''qa_engine'') = Some (PStr s)"
      "length s > 300" "\<not> prefix (lit ''I'm sorry'') s"
      "qa_primary (collect_outputs rs) rs (PStr s) (title q) = Inr a"
  | (quick) v where "collect_outputs rs \<noteq> []"
      "map_of (collect_outputs rs) (lit ''qa_engine'') = Some v"
      "qa_substantial v = Inr False"
      "fallback q (collect_outputs rs) rs (title q @ quick_answer v) = Inr a"
  | (plain) "collect_outputs rs \<noteq> []"
      "map_of (collect_outputs rs) (lit ''qa_engine'') = None"
      "fallback q (collect_outputs rs) rs (title q) = Inr a"
proof (cases "collect_outputs rs = []")
  case True
  with assms empty show ?thesis by (simp add: synthesize_answer_def Let_def)
next
  case ne: False
  show ?thesis
  proof (cases "map_of (collect_outputs rs) (lit ''qa_engine'')")
    case None
    with assms ne plain show ?thesis by (simp add: synthesize_answer_def Let_def)
  next
    case (Some v)
    with assms ne obtain b where b: "qa_substantial v = Inr b"
      and r: "(if b then qa_primary (collect_outputs rs) rs v (title q)
               else fallback q (collect_outputs rs) rs (title q @ quick_answer v)) = Inr a"
      by (auto simp: synthesize_answer_def Let_def ebind_eq_Inr)
    show ?thesis
    proof (cases b)
      case True
      with b have "qa_substantial v = Inr True" by simp
      then obtain s where "v = PStr s" "length s > 300" "\<not> prefix (lit ''I'm sorry'') s"
        using qa_substantial_True by blast
      with True r Some ne primary show ?thesis by simp
    next
      case False
      with b r Some ne quick show ?thesis by simp
    qed
  qed
qed

lemma sublist_trans: "sublist xs ys \<Longrightarrow> sublist ys zs \<Longrightarrow> sublist xs zs"
  by (rule sublist_order.order_trans)

lemma sublist_title: "sublist q (title q)"
  unfolding title_def sublist_def
  by (rule exI [of _ "lit ''# '' @ [0x1F4D6] @ lit '' Answer to: ''"], rule exI [of _ "[10, 10]"]) simp

lemma title_nonempty: "title q \<noteq> []"
  by (simp add: title_def)

lemma prefix_title_answer:
  assumes "prefix (title q @ x) a"
  shows "a \<noteq> [] \<and> sublist q a"
proof -
  from assms obtain y where a: "a = title q @ x @ y" by (auto simp: prefix_def)
  have "sublist (title q) a" by (simp add: a)
  with sublist_title [of q] have "sublist q a" by (rule sublist_trans)
  with a title_nonempty [of q] show ?thesis by simp
qed

lemma answer_starts_with_title:
  assumes "synthesize_answer q rs = Inr a" "collect_outputs rs \<noteq> []"
  shows "\<exists>x. prefix (title q @ x) a"
  using assms(1)
proof (cases rule: synthesize_answer_cases)
  case empty
  with assms(2) show ?thesis by simp
next
  case (primary s)
  from qa_primary_prefix [OF primary(5)] show ?thesis by auto
next
  case (quick v)
  from fallback_prefix [OF quick(4)] show ?thesis by blast
next
  case plain
  from fallback_prefix [OF plain(3)] have "prefix (title q @ []) a" by simp
  then show ?thesis by blast
qed


section \<open>What every answer holds\<close>

text \<open>
  Claim C1, as amended. Whenever \<open>synthesize_answer\<close> returns, the text is non-empty; it
  is the fixed notice when no record passes the filter, and contains the literal query
  otherwise. It returns whenever the output of every record is text.
\<close>

theorem answer_nonempty_and_query:
  "(\<forall>a. synthesize_answer q rs = Inr a \<longrightarrow>
        a \<noteq> [] \<and> (if collect_outputs rs = [] then a = no_results_notice else sublist q a))
   \<and> (list_all text_output rs \<longrightarrow> (\<exists>a. synthesize_answer q rs = Inr a))"
proof (rule conjI)
  show "\<forall>a. synthesize_answer q rs = Inr a \<longrightarrow>
          a \<noteq> [] \<and> (if collect_outputs rs = [] then a = no_results_notice else sublist q a)"
  proof (rule allI, rule impI)
    fix a assume r: "synthesize_answer q rs = Inr a"
    show "a \<noteq> [] \<and> (if collect_outputs rs = [] then a = no_results_notice else sublist q a)"
    proof (cases "collect_outputs rs = []")
      case True
      with r show ?thesis by (auto simp: synthesize_answer_def no_results_notice_def)
    next
      case False
      from answer_starts_with_title [OF r False] obtain x where "prefix (title q @ x) a" ..
      from prefix_title_answer [OF this] False show ?thesis by simp
    qed
  qed
  show "list_all text_output rs \<longrightarrow> (\<exists>a. synthesize_answer q rs = Inr a)"
    using synthesize_answer_total by blast
qed

theorem answer_nonempty_and_query_witness:
  "(\<exists>a. synthesize_answer (lit ''moon'')
        [\<lparr>tool = Some (lit ''sentiment_analyzer''), status = Some (lit ''success''),
          output_value = Some (PStr (lit ''neutral''))\<rparr>] = Inr a
       \<and> a \<noteq> [] \<and> sublist (lit ''moon'') a)
   \<and> (\<exists>a. synthesize_answer (lit ''moon'') [] = Inr a \<and> a = no_results_notice)"
proof -
  let ?rs = "[\<lparr>tool = Some (lit ''sentiment_analyzer''), status = Some (lit ''success''),
          output_value = Some (PStr (lit ''neutral''))\<rparr>]"
  have t: "list_all text_output ?rs" by (simp add: text_output_def get_output_def)
  have ne: "collect_outputs ?rs \<noteq> []"
    by (simp add: collect_outputs_def store_result_def is_success_def get_output_def lit_def)
  have e: "collect_outputs [] = []" by (simp add: collect_outputs_def)
  show ?thesis
    using answer_nonempty_and_query [of "lit ''moon''" ?rs]
      answer_nonempty_and_query [of "lit ''moon''" "[]"] t ne e
    by auto
qed

text \<open>
  Claim C1 as stated fails for the empty sequence of records: the answer is the fixed
  notice, which does not contain the query.
\<close>

theorem notice_lacks_query:
  "synthesize_answer (lit ''quantum computing'') [] = Inr no_results_notice
   \<and> \<not> sublist (lit ''quantum computing'') no_results_notice"
  by (simp add: synthesize_answer_def collect_outputs_def no_results_notice_def lit_def
        sublist_Cons_right)

section \<open>The first strategy: sources under the QA answer\<close>

subsection \<open>Evaluating literals\<close>

lemma not_prefix_replicate: "x \<noteq> c \<Longrightarrow> \<not> prefix (x # xs) (replicate n c)"
  by (cases n) simp_all

lemma lit_Cons: "lit (c # cs) = of_char c # lit cs"
  by (simp add: lit_def)

lemma lit_Nil: "lit [] = []"
  by (simp add: lit_def)

subsection \<open>The Wikipedia block of the first strategy\<close>

lemma qa_wikipedia_long:
  assumes "map_of outs (lit ''wikipedia_search'') = Some (PStr w)" "length w > 800"
  shows "qa_wikipedia outs st =
     Inr (fst st @ lit ''### '' @ [0x1F4D6] @ lit '' Wikipedia Background'' @ [10, 10]
          @ take 800 w @ lit ''...'' @ [10, 10]
          @ lit ''<details><summary>Show full Wikipedia content</summary>'' @ [10, 10]
          @ w @ [10, 10] @ lit ''</details>'' @ [10, 10], True)"
  using assms by (simp add: qa_wikipedia_def)

text \<open>
  Claim C6. In the QA-primary case, with a Wikipedia output of exactly 850 characters, every
  answer returned contains the first 800 characters followed by the marker \<open>...\<close>, and
  after it the collapsible block with the whole 850 characters once more. An answer is
  returned whenever the output of every record is text.
\<close>

theorem long_background_truncated_and_kept:
  assumes "map_of (collect_outputs rs) (lit ''qa_engine'') = Some (PStr qa)"
    and "length qa > 300" and "\<not> prefix (lit ''I'm sorry'') qa"
    and "map_of (collect_outputs rs) (lit ''wikipedia_search'') = Some (PStr w)"
    and "length w = 850"
  shows "(\<forall>a. synthesize_answer q rs = Inr a \<longrightarrow>
            sublist (take 800 w @ lit ''...'' @ [10, 10]
                     @ lit ''<details><summary>Show full Wikipedia content</summary>'' @ [10, 10]
                     @ w @ [10, 10] @ lit ''</details>'') a)
         \<and> (list_all text_output rs \<longrightarrow> (\<exists>a. synthesize_answer q rs = Inr a))"
proof (rule conjI)
  let ?block = "take 800 w @ lit ''...'' @ [10, 10]
                     @ lit ''<details><summary>Show full Wikipedia content</summary>'' @ [10, 10]
                     @ w @ [10, 10] @ lit ''</details>''"
  show "\<forall>a. synthesize_answer q rs = Inr a \<longrightarrow> sublist ?block a"
  proof (rule allI, rule impI)
    fix a assume "synthesize_answer q rs = Inr a"
    then show "sublist ?block a"
    proof (cases rule: synthesize_answer_cases)
      case empty
      with assms(1) show ?thesis by simp
    next
      case (primary s)
      from primary(5) obtain s' st1 st2 st3 fs where
        2: "qa_wikipedia (collect_outputs rs) st1 = Inr st2" and
        3: "qa_news (collect_outputs rs) st2 = Inr st3" and
        a: "a = add_resources fs (if snd st3 then fst st3 else fst st3 @ no_sources_note)
                @ rule_line @ qa_footer"
        by (rule qa_primary_steps)
      from assms(5) have "length w > 800" by simp
      from 2 qa_wikipedia_long [OF assms(4) this, of st1]
      have "fst st2 = (fst st1 @ lit ''### '' @ [0x1F4D6] @ lit '' Wikipedia Background'' @ [10, 10])
                      @ ?block @ [10, 10]"
        by auto
      then have "sublist ?block (fst st2)" by (simp only: sublist_appendI)
      moreover have "prefix (fst st2) a"
      proof -
        have "prefix (fst st2) (fst st3)" by (rule qa_news_prefix [OF 3])
        also have "prefix \<dots> (if snd st3 then fst st3 else fst st3 @ no_sources_note)" by simp
        also have "prefix \<dots> (add_resources fs (if snd st3 then fst st3 else fst st3 @ no_sources_note))"
          by (rule add_resources_prefix)
        also have "prefix \<dots> a" by (simp add: a)
        finally show ?thesis .
      qed
      ultimately show ?thesis by (blast intro: sublist_trans prefix_imp_sublist)
    next
      case (quick v)
      with assms(1-3) show ?thesis by (simp add: qa_substantial_text)
    next
      case plain
      with assms(1) show ?thesis by simp
    qed
  qed
  show "list_all text_output rs \<longrightarrow> (\<exists>a. synthesize_answer q rs = Inr a)"
    using synthesize_answer_total by blast
qed

theorem long_background_truncated_and_kept_witness:
  "\<exists>a. synthesize_answer (lit ''moon'')
        [\<lparr>tool = Some (lit ''qa_engine''), status = Some (lit ''success''),
          output_value = Some (PStr (replicate 301 97))\<rparr>,
         \<lparr>tool = Some (lit ''wikipedia_search''), status = Some (lit ''success''),
          output_value = Some (PStr (replicate 850 98))\<rparr>] = Inr a
       \<and> sublist (replicate 800 98 @ lit ''...'' @ [10, 10]
                 @ lit ''<details><summary>Show full Wikipedia content</summary>'' @ [10, 10]
                 @ replicate 850 98 @ [10, 10] @ lit ''</details>'') a"
proof -
  let ?rs = "[\<lparr>tool = Some (lit ''qa_engine''), status = Some (lit ''success''),
          output_value = Some (PStr (replicate 301 97))\<rparr>,
         \<lparr>tool = Some (lit ''wikipedia_search''), status = Some (lit ''success''),
          output_value = Some (PStr (replicate 850 98))\<rparr>]"
  have outs: "collect_outputs ?rs =
      [(lit ''qa_engine'', PStr (replicate 301 97)), (lit ''wikipedia_search'', PStr (replicate 850 98))]"
    by (simp add: collect_outputs_def store_result_def is_success_def get_output_def tool_name_def
          lit_Cons lit_Nil not_prefix_replicate)
  have 1: "map_of (collect_outputs ?rs) (lit ''qa_engine'') = Some (PStr (replicate 301 97))"
    unfolding outs by simp
  have 2: "length (replicate 301 (97::nat)) > 300" by simp
  have 3: "\<not> prefix (lit ''I'm sorry'') (replicate 301 97)"
    by (simp add: lit_Cons not_prefix_replicate)
  have 4: "map_of (collect_outputs ?rs) (lit ''wikipedia_search'') = Some (PStr (replicate 850 98))"
    unfolding outs by (simp add: lit_Cons lit_Nil)
  have 5: "length (replicate 850 (98::nat)) = 850" by simp
  have t: "list_all text_output ?rs" by (simp add: text_output_def get_output_def)
  have tk: "take 800 (replicate 850 (98::nat)) = replicate 800 98" by simp
  show ?thesis
    using long_background_truncated_and_kept [OF 1 2 3 4 5, of "lit ''moon''"] t
    unfolding tk by blast
qed

section \<open>Headings that an answer does not contain\<close>

subsection \<open>Looking for a heading in a concatenation\<close>

lemma sublist_sep:
  assumes "c \<notin> set h"
  shows "sublist h (xs @ c # ys) \<longleftrightarrow> sublist h xs \<or> sublist h ys"
proof
  assume "sublist h (xs @ c # ys)"
  then consider "sublist h xs" | "sublist h (c # ys)"
    | xs1 xs2 where "h = xs1 @ xs2" "suffix xs1 xs" "prefix xs2 (c # ys)"
    unfolding sublist_append by blast
  then show "sublist h xs \<or> sublist h ys"
  proof cases
    case 1
    then show ?thesis ..
  next
    case 2
    then have "prefix h (c # ys) \<or> sublist h ys" by (simp add: sublist_Cons_right)
    moreover have "sublist h xs" if "prefix h (c # ys)"
      using that assms by (cases h) auto
    ultimately show ?thesis by blast
  next
    case 3
    from 3(3) assms 3(1) have "xs2 = []" by (cases xs2) auto
    with 3(1,2) have "suffix h xs" by simp
    then show ?thesis by blast
  qed
next
  assume "sublist h xs \<or> sublist h ys"
  then show "sublist h (xs @ c # ys)"
    by (auto simp: sublist_append sublist_Cons_right)
qed

lemma sublist_skip:
  assumes "h \<noteq> []" "hd h \<noteq> c"
  shows "sublist h (c # ys) \<longleftrightarrow> sublist h ys"
  using assms by (cases h) (auto simp: sublist_Cons_right)

lemma ends_free_Nil: "h \<noteq> [] \<Longrightarrow> ends_free h []"
  by (simp add: ends_free_def)

lemma ends_free_append:
  assumes "10 \<notin> set h" "ends_free h x" "ends_free h y"
  shows "ends_free h (x @ y)"
proof (cases "x = []")
  case True
  with assms show ?thesis by simp
next
  case False
  with assms(2) have "last x = 10" by (simp add: ends_free_def)
  with False obtain x' where x: "x = x' @ [10]" by (metis append_butlast_last_id)
  have "\<not> sublist h x'"
  proof
    assume "sublist h x'"
    then have "sublist h x" unfolding x by (rule sublist_order.order_trans) simp
    with assms(2) show False by (simp add: ends_free_def)
  qed
  moreover have "\<not> sublist h y" using assms(3) by (simp add: ends_free_def)
  ultimately have "\<not> sublist h (x' @ 10 # y)"
    using sublist_sep [OF assms(1)] by simp
  then have "\<not> sublist h (x @ y)" unfolding x by simp
  moreover have "x @ y = [] \<or> last (x @ y) = 10"
    using assms(3) \<open>last x = 10\<close> by (cases "y = []") (simp_all add: ends_free_def)
  ultimately show ?thesis by (simp add: ends_free_def)
qed

lemma ends_free_line:
  assumes "h \<noteq> []" "10 \<notin> set h" "\<not> sublist h s"
  shows "ends_free h (s @ [10])"
  using assms sublist_sep [OF assms(2), of s "[]"] by (simp add: ends_free_def)

lemma ends_free_para:
  assumes "h \<noteq> []" "10 \<notin> set h" "\<not> sublist h s"
  shows "ends_free h (s @ [10, 10])"
proof -
  have "ends_free h ((s @ [10]) @ ([] @ [10]))"
    using assms by (intro ends_free_append ends_free_line) simp_all
  then show ?thesis by simp
qed

subsection \<open>The rendered resources\<close>

lemma render_free:
  assumes "plain_needle h" "\<not> sublist h (snd f)"
  shows "ends_free h (render_file f)"
proof -
  from assms(1) have h: "h \<noteq> []" "hd h \<noteq> 32" "10 \<notin> set h" "0x1F4C8 \<notin> set h" "0x1F4C4 \<notin> set h"
    by (simp_all add: plain_needle_def)
  have line: "\<not> sublist h (snd f @ [10])"
    using ends_free_line [OF h(1) h(3) assms(2)] by (simp add: ends_free_def)
  have "\<not> sublist h (32 # snd f @ [10])"
    using line sublist_skip [OF h(1) h(2)] by simp
  then have "\<not> sublist h ([] @ 0x1F4C8 # 32 # snd f @ [10])"
    and "\<not> sublist h ([] @ 0x1F4C4 # 32 # snd f @ [10])"
    using h(1) sublist_sep [OF h(4), of "[]"] sublist_sep [OF h(5), of "[]"] by simp_all
  then show ?thesis
    by (simp add: render_file_def ends_free_def lit_Cons lit_Nil)
qed

lemma renders_free:
  assumes "plain_needle h" "\<forall>f\<in>set fs. \<not> sublist h (snd f)"
  shows "ends_free h (concat (map render_file fs))"
  using assms(2)
proof (induction fs)
  case Nil
  from assms(1) show ?case by (simp add: plain_needle_def ends_free_Nil)
next
  case (Cons f fs)
  from assms(1) have "10 \<notin> set h" by (simp add: plain_needle_def)
  then have "ends_free h (render_file f @ concat (map render_file fs))"
    using Cons render_free [OF assms(1)] by (intro ends_free_append) simp_all
  then show ?case by simp
qed

lemma ends_free_literal: "\<not> sublist h x \<Longrightarrow> x = [] \<or> last x = 10 \<Longrightarrow> ends_free h x"
  by (simp add: ends_free_def)

lemma add_resources_free:
  assumes "plain_needle h" "ends_free h x" "\<forall>f\<in>set fs. \<not> sublist h (snd f)"
  shows "ends_free h (add_resources fs x)"
proof -
  from assms(1) have h: "h \<noteq> []" "10 \<notin> set h" "\<not> sublist h resources_heading"
    by (simp_all add: plain_needle_def)
  have rh: "ends_free h resources_heading"
    using h(3) by (rule ends_free_literal) (simp add: resources_heading_def)
  have nl: "ends_free h ([] @ [10])" using h by (intro ends_free_line) simp_all
  show ?thesis
    unfolding add_resources_eq
    using assms(2) rh nl renders_free [OF assms(1) assms(3)] h(1,2)
    by (auto intro!: ends_free_append ends_free_Nil)
qed


subsection \<open>The Key Insights heading and the literals of the first strategy\<close>

lemmas literal_eval = lit_Cons lit_Nil sublist_Cons_right ends_free_def














lemma not_sublist_replicate: "x \<noteq> c \<Longrightarrow> \<not> sublist (x # xs) (replicate n c)"
  using set_mono_sublist [of "x # xs" "replicate n c"] by auto


section \<open>The QA answer as the whole answer\<close>




section \<open>The scenario of a single Wikipedia result\<close>

lemma key_insights_wikipedia_only:
  "generate_key_insights q [(lit ''wikipedia_search'', v)] =
     lit ''**Information Sources:**'' @ [10]
     @ [0x2713] @ lit '' **Foundational knowledge** about '' @ q
     @ lit '' has been retrieved from Wikipedia'' @ [10, 10]
     @ lit ''This comprehensive analysis of **'' @ q
     @ lit ''** combines information from multiple authoritative sources to give you a complete picture.''"
proof -
  have keys: "lit ''arxiv_summarizer'' \<noteq> lit ''wikipedia_search''"
    "lit ''news_fetcher'' \<noteq> lit ''wikipedia_search''"
    "lit ''sentiment_analyzer'' \<noteq> lit ''wikipedia_search''"
    "lit ''qa_engine'' \<noteq> lit ''wikipedia_search''"
    by (simp_all add: lit_Cons lit_Nil)
  have "insights q [(lit ''wikipedia_search'', v)] =
          [[0x2713] @ lit '' **Foundational knowledge** about '' @ q
             @ lit '' has been retrieved from Wikipedia'']"
    using keys by (simp add: insights_def has_key_def)
  then show ?thesis by (simp add: generate_key_insights_def)
qed

lemma wikipedia_only_answer:
  assumes "length w > 50" "\<not> prefix (lit ''Error:'') w"
    and "track_files [\<lparr>tool = Some (lit ''wikipedia_search''), status = Some (lit ''success''),
                       output_value = Some (PStr w)\<rparr>] [] = Inr fs"
  shows "synthesize_answer q
           [\<lparr>tool = Some (lit ''wikipedia_search''), status = Some (lit ''success''),
             output_value = Some (PStr w)\<rparr>]
         = Inr (add_resources fs
                  (title q @ background_heading @ w @ [10, 10] @ insights_heading
                   @ generate_key_insights q [(lit ''wikipedia_search'', PStr w)] @ [10, 10])
                @ rule_line @ footer)"
proof -
  let ?rs = "[\<lparr>tool = Some (lit ''wikipedia_search''), status = Some (lit ''success''),
             output_value = Some (PStr w)\<rparr>]"
  from assms(1) have ne: "w \<noteq> []" by auto
  have outs: "collect_outputs ?rs = [(lit ''wikipedia_search'', PStr w)]"
    using ne assms(2)
    by (simp add: collect_outputs_def store_result_def is_success_def get_output_def tool_name_def)
  have keys: "lit ''wikipedia_search'' \<noteq> lit ''qa_engine''"
    "lit ''wikipedia_search'' \<noteq> lit ''arxiv_summarizer''"
    "lit ''wikipedia_search'' \<noteq> lit ''news_fetcher''"
    "lit ''wikipedia_search'' \<noteq> lit ''sentiment_analyzer''"
    by (simp_all add: lit_Cons lit_Nil)
  show ?thesis
    unfolding synthesize_answer_def outs Let_def
    using keys assms(1,3)
    by (simp add: fallback_def fb_wikipedia_def fb_arxiv_def fb_news_def fb_sentiment_def
          del: track_files.simps)
qed

lemma sources_title_plain: "plain_needle sources_title"
  by (simp add: plain_needle_def sources_title_def resources_heading_def rule_line_def literal_eval)

lemma sources_title_basic: "sources_title \<noteq> []" "10 \<notin> set sources_title"
  by (simp_all add: sources_title_def literal_eval)

lemma sources_free_literals:
  "ends_free sources_title (title (lit ''quantum computing'') @ background_heading)"
  "ends_free sources_title
     (insights_heading @ generate_key_insights (lit ''quantum computing'') [(lit ''wikipedia_search'', v)]
      @ [10, 10])"
  "ends_free sources_title (rule_line @ footer)"
  unfolding key_insights_wikipedia_only
  by (simp_all add: title_def background_heading_def insights_heading_def
        insights_title_def rule_line_def footer_def sources_title_def literal_eval)

lemma wikipedia_only_free:
  assumes "\<not> sublist sources_title w" "\<forall>f\<in>set fs. snd f = w"
  shows "\<not> sublist sources_title
           (add_resources fs
              (title (lit ''quantum computing'') @ background_heading @ w @ [10, 10] @ insights_heading
               @ generate_key_insights (lit ''quantum computing'') [(lit ''wikipedia_search'', PStr w)]
               @ [10, 10])
            @ rule_line @ footer)"
proof -
  note app = ends_free_append [OF sources_title_basic(2)]
  have "ends_free sources_title
          ((title (lit ''quantum computing'') @ background_heading) @ (w @ [10, 10])
           @ (insights_heading
              @ generate_key_insights (lit ''quantum computing'') [(lit ''wikipedia_search'', PStr w)]
              @ [10, 10]))"
    using assms(1)
    by (intro app sources_free_literals ends_free_para sources_title_basic)
  then have x: "ends_free sources_title
          (title (lit ''quantum computing'') @ background_heading @ w @ [10, 10] @ insights_heading
           @ generate_key_insights (lit ''quantum computing'') [(lit ''wikipedia_search'', PStr w)]
           @ [10, 10])"
    by simp
  have "\<forall>f\<in>set fs. \<not> sublist sources_title (snd f)"
    using assms by simp
  from add_resources_free [OF sources_title_plain x this]
  have "ends_free sources_title
          (add_resources fs
              (title (lit ''quantum computing'') @ background_heading @ w @ [10, 10] @ insights_heading
               @ generate_key_insights (lit ''quantum computing'') [(lit ''wikipedia_search'', PStr w)]
               @ [10, 10])
           @ (rule_line @ footer))"
    by (rule app) (rule sources_free_literals)
  then show ?thesis by (simp add: ends_free_def)
qed

text \<open>
  Claim C9, as amended. For the query \<open>quantum computing\<close> and one successful
  \<open>wikipedia_search\<close> record whose output is a text of 600 characters that does not start
  with \<open>Error:\<close>, the answer is the title, the Background heading, the whole text, the Key
  Insights section whose only source line names Wikipedia, possibly a resources section,
  and the completion footer. It contains the Factual Sources heading only if the text
  itself contains it.
\<close>

theorem wikipedia_only_scenario:
  assumes "length w = 600" and "\<not> prefix (lit ''Error:'') w"
  shows "\<exists>a res.
     synthesize_answer (lit ''quantum computing'')
       [\<lparr>tool = Some (lit ''wikipedia_search''), status = Some (lit ''success''),
         output_value = Some (PStr w)\<rparr>] = Inr a
     \<and> a = title (lit ''quantum computing'') @ background_heading @ w @ [10, 10]
           @ insights_heading @ lit ''**Information Sources:**'' @ [10]
           @ [0x2713] @ lit '' **Foundational knowledge** about quantum computing has been retrieved from Wikipedia''
           @ [10, 10]
           @ lit ''This comprehensive analysis of **quantum computing** combines information from multiple authoritative sources to give you a complete picture.''
           @ [10, 10] @ res @ rule_line @ footer
     \<and> (\<not> sublist sources_title w \<longrightarrow> \<not> sublist sources_title a)"
proof -
  let ?r = "\<lparr>tool = Some (lit ''wikipedia_search''), status = Some (lit ''success''),
         output_value = Some (PStr w)\<rparr>"
  let ?x = "title (lit ''quantum computing'') @ background_heading @ w @ [10, 10] @ insights_heading
            @ generate_key_insights (lit ''quantum computing'') [(lit ''wikipedia_search'', PStr w)]
            @ [10, 10]"
  have "list_all text_output [?r]" by (simp add: text_output_def get_output_def)
  then obtain fs where fs: "track_files [?r] [] = Inr fs"
    using track_files_total by blast
  have src: "\<forall>f\<in>set fs. snd f = w"
    using track_files_sources [OF fs] by (auto simp: get_output_def)
  from assms(1) have "length w > 50" by simp
  from wikipedia_only_answer [OF this assms(2) fs]
  have a: "synthesize_answer (lit ''quantum computing'') [?r]
             = Inr (add_resources fs ?x @ rule_line @ footer)" .
  let ?res = "if fs \<noteq> [] then resources_heading @ concat (map render_file fs) @ [10] else []"
  have shape: "add_resources fs ?x @ rule_line @ footer =
      title (lit ''quantum computing'') @ background_heading @ w @ [10, 10]
           @ insights_heading @ lit ''**Information Sources:**'' @ [10]
           @ [0x2713] @ lit '' **Foundational knowledge** about quantum computing has been retrieved from Wikipedia''
           @ [10, 10]
           @ lit ''This comprehensive analysis of **quantum computing** combines information from multiple authoritative sources to give you a complete picture.''
           @ [10, 10] @ ?res @ rule_line @ footer"
    unfolding add_resources_eq key_insights_wikipedia_only by (simp add: lit_def)
  have free: "\<not> sublist sources_title w \<longrightarrow>
              \<not> sublist sources_title (add_resources fs ?x @ rule_line @ footer)"
    using wikipedia_only_free [OF _ src] by blast
  from a shape free show ?thesis by blast
qed

theorem wikipedia_only_scenario_witness:
  "\<exists>a res.
     synthesize_answer (lit ''quantum computing'')
       [\<lparr>tool = Some (lit ''wikipedia_search''), status = Some (lit ''success''),
         output_value = Some (PStr (replicate 600 97))\<rparr>] = Inr a
     \<and> a = title (lit ''quantum computing'') @ background_heading @ replicate 600 97 @ [10, 10]
           @ insights_heading @ lit ''**Information Sources:**'' @ [10]
           @ [0x2713] @ lit '' **Foundational knowledge** about quantum computing has been retrieved from Wikipedia''
           @ [10, 10]
           @ lit ''This comprehensive analysis of **quantum computing** combines information from multiple authoritative sources to give you a complete picture.''
           @ [10, 10] @ res @ rule_line @ footer
     \<and> \<not> sublist sources_title a"
proof -
  have 1: "length (replicate 600 (97::nat)) = 600" by simp
  have 2: "\<not> prefix (lit ''Error:'') (replicate 600 97)"
    by (simp add: lit_Cons not_prefix_replicate)
  have 3: "\<not> sublist sources_title (replicate 600 97)"
    by (simp add: sources_title_def lit_Cons not_sublist_replicate)
  show ?thesis
    using wikipedia_only_scenario [OF 1 2] 3 by blast
qed

text \<open>
  Claim C9 as stated fails for a 600-character text that starts with \<open>Error:\<close>: the
  record is filtered out and the answer is the fixed notice, without a Background heading.
  It also fails for a 600-character text that carries the Factual Sources heading: the
  text is embedded verbatim, and the answer contains that heading.
\<close>

theorem wikipedia_scenario_fails:
  "length (lit ''Error:'' @ replicate 594 97) = 600
   \<and> synthesize_answer (lit ''quantum computing'')
       [\<lparr>tool = Some (lit ''wikipedia_search''), status = Some (lit ''success''),
         output_value = Some (PStr (lit ''Error:'' @ replicate 594 97))\<rparr>] = Inr no_results_notice
   \<and> \<not> sublist background_heading no_results_notice
   \<and> length (sources_heading @ replicate 551 97) = 600
   \<and> synthesize_answer (lit ''quantum computing'')
       [\<lparr>tool = Some (lit ''wikipedia_search''), status = Some (lit ''success''),
         output_value = Some (PStr (sources_heading @ replicate 551 97))\<rparr>]
       = Inr (title (lit ''quantum computing'') @ background_heading
              @ sources_heading @ replicate 551 97 @ [10, 10] @ insights_heading
              @ generate_key_insights (lit ''quantum computing'')
                  [(lit ''wikipedia_search'', PStr (sources_heading @ replicate 551 97))]
              @ [10, 10] @ rule_line @ footer)
   \<and> sublist sources_heading
       (title (lit ''quantum computing'') @ background_heading
        @ sources_heading @ replicate 551 97 @ [10, 10] @ insights_heading
        @ generate_key_insights (lit ''quantum computing'')
            [(lit ''wikipedia_search'', PStr (sources_heading @ replicate 551 97))]
        @ [10, 10] @ rule_line @ footer)"
proof (intro conjI)
  let ?w = "sources_heading @ replicate 551 97"
  show "length (lit ''Error:'' @ replicate 594 97) = 600"
    by (simp add: lit_def)
  show "synthesize_answer (lit ''quantum computing'')
       [\<lparr>tool = Some (lit ''wikipedia_search''), status = Some (lit ''success''),
         output_value = Some (PStr (lit ''Error:'' @ replicate 594 97))\<rparr>] = Inr no_results_notice"
    by (simp add: synthesize_answer_def collect_outputs_def store_result_def get_output_def)
  show "\<not> sublist background_heading no_results_notice"
    by (simp add: background_heading_def no_results_notice_def lit_Cons lit_Nil sublist_Cons_right)
  show len: "length ?w = 600"
    by (simp add: sources_heading_def sources_title_def lit_def)
  have low: "lower ?w = lower sources_heading @ replicate 551 97"
    by (simp add: lower_def lower_cp_def)
  have "\<not> sublist (lit ''successfully created'') (lower ?w)"
    and "\<not> sublist (lit ''generated'') (lower ?w)"
    unfolding low
    by (simp_all add: lower_def lower_cp_def sources_heading_def sources_title_def
          lit_Cons lit_Nil sublist_Cons_right not_sublist_replicate)
  then have "scan_output (PStr ?w) = Inr []" by simp
  then have files: "track_files
       [\<lparr>tool = Some (lit ''wikipedia_search''), status = Some (lit ''success''),
         output_value = Some (PStr ?w)\<rparr>] [] = Inr []"
    by (simp add: get_output_def del: scan_output.simps)
  have long: "length ?w > 50" using len by simp
  have noerr: "\<not> prefix (lit ''Error:'') ?w"
    by (simp add: sources_heading_def sources_title_def lit_Cons lit_Nil)
  from wikipedia_only_answer [OF long noerr files, of "lit ''quantum computing''"]
  show "synthesize_answer (lit ''quantum computing'')
       [\<lparr>tool = Some (lit ''wikipedia_search''), status = Some (lit ''success''),
         output_value = Some (PStr ?w)\<rparr>]
       = Inr (title (lit ''quantum computing'') @ background_heading
              @ sources_heading @ replicate 551 97 @ [10, 10] @ insights_heading
              @ generate_key_insights (lit ''quantum computing'')
                  [(lit ''wikipedia_search'', PStr ?w)]
              @ [10, 10] @ rule_line @ footer)"
    by (simp add: add_resources_def)
  have "sublist sources_heading
       ((title (lit ''quantum computing'') @ background_heading)
        @ sources_heading @ (replicate 551 97 @ [10, 10] @ insights_heading
        @ generate_key_insights (lit ''quantum computing'')
            [(lit ''wikipedia_search'', PStr ?w)]
        @ [10, 10] @ rule_line @ footer))"
    by (rule sublist_appendI)
  then show "sublist sources_heading
       (title (lit ''quantum computing'') @ background_heading
        @ sources_heading @ replicate 551 97 @ [10, 10] @ insights_heading
        @ generate_key_insights (lit ''quantum computing'')
            [(lit ''wikipedia_search'', PStr ?w)]
        @ [10, 10] @ rule_line @ footer)"
    by (simp only: append_assoc)
qed

section \<open>Generated resources\<close>

lemma lower_append: "lower (xs @ ys) = lower xs @ lower ys"
  by (simp add: lower_def)

lemma lower_trigger: "lower (lit ''successfully created'') = lit ''successfully created''"
  by (simp add: lower_def lower_cp_def lit_def)

lemma created_chart_parts:
  "lit ''successfully created chart.png'' = lit ''successfully created'' @ lit '' chart'' @ lit ''.png''"
  by (simp add: lit_def)

lemma scan_created_chart:
  assumes "sublist (lit ''successfully created chart.png'') t"
  shows "scan_output (PStr t) = Inr [(lit ''chart'', t)]"
proof -
  from assms obtain ps ss where
    t: "t = ps @ lit ''successfully created'' @ lit '' chart'' @ lit ''.png'' @ ss"
    unfolding sublist_def created_chart_parts by auto
  have "lower t = lower ps @ lit ''successfully created'' @ lower (lit '' chart'' @ lit ''.png'' @ ss)"
    unfolding t lower_append lower_trigger ..
  then have 1: "sublist (lit ''successfully created'') (lower t)"
    by (simp only: sublist_appendI)
  have "t = (ps @ lit ''successfully created'' @ lit '' chart'') @ lit ''.png'' @ ss"
    unfolding t by simp
  then have 2: "sublist (lit ''.png'') t"
    by (simp only: sublist_appendI)
  show ?thesis unfolding scan_output.simps using 1 2 by (simp only: simp_thms if_True)
qed


lemma answer_resources:
  assumes "synthesize_answer q rs = Inr a" "collect_outputs rs \<noteq> []"
  obtains fs x y where "track_files rs [] = Inr fs" "a = add_resources fs x @ y"
  using assms(1)
proof (cases rule: synthesize_answer_cases)
  case empty
  with assms(2) show ?thesis by simp
next
  case (primary s)
  from primary(5) that show ?thesis by (blast elim: qa_primary_steps)
next
  case (quick v)
  from quick(4) that show ?thesis by (blast elim: fallback_steps)
next
  case plain
  from plain(3) that show ?thesis by (blast elim: fallback_steps)
qed

text \<open>
  Claim C7, as amended. When at least one record passes the filter, a record with status
  failure whose output text contains \<open>successfully created chart.png\<close> has its chart
  line in the answer, after the heading of the generated resources.
\<close>

theorem failed_record_still_lists_chart:
  assumes "r \<in> set rs" and "status r = Some (lit ''failure'')"
    and "output_value r = Some (PStr t)"
    and "sublist (lit ''successfully created chart.png'') t"
    and "collect_outputs rs \<noteq> []"
  shows "(\<forall>a. synthesize_answer q rs = Inr a \<longrightarrow>
            (\<exists>pre mid post. a = pre @ resources_heading @ mid @ [0x1F4C8] @ lit '' '' @ t @ [10] @ post))
         \<and> (list_all text_output rs \<longrightarrow> (\<exists>a. synthesize_answer q rs = Inr a))"
proof (rule conjI)
  show "\<forall>a. synthesize_answer q rs = Inr a \<longrightarrow>
            (\<exists>pre mid post. a = pre @ resources_heading @ mid @ [0x1F4C8] @ lit '' '' @ t @ [10] @ post)"
  proof (rule allI, rule impI)
    fix a assume "synthesize_answer q rs = Inr a"
    from this assms(5) obtain fs x y where
      fs: "track_files rs [] = Inr fs" and a: "a = add_resources fs x @ y"
      by (rule answer_resources)
    from assms(3) have "get_output r = PStr t" by (simp add: get_output_def)
    with scan_created_chart [OF assms(4)]
    have "scan_output (get_output r) = Inr [(lit ''chart'', t)]" by simp
    from track_files_finds [OF assms(1) this fs] have "(lit ''chart'', t) \<in> set fs" .
    then obtain f1 f2 where sp: "fs = f1 @ (lit ''chart'', t) # f2"
      by (auto simp: in_set_conv_decomp)
    have "a = x @ resources_heading @ concat (map render_file f1)
              @ [0x1F4C8] @ lit '' '' @ t @ [10] @ (concat (map render_file f2) @ [10] @ y)"
      by (simp add: a add_resources_eq sp render_file_def)
    then show "\<exists>pre mid post. a = pre @ resources_heading @ mid @ [0x1F4C8] @ lit '' '' @ t @ [10] @ post"
      by blast
  qed
  show "list_all text_output rs \<longrightarrow> (\<exists>a. synthesize_answer q rs = Inr a)"
    using synthesize_answer_total by blast
qed

theorem failed_record_still_lists_chart_witness:
  "\<exists>a pre mid post. synthesize_answer (lit ''moon'')
        [\<lparr>tool = Some (lit ''chart_generator''), status = Some (lit ''failure''),
          output_value = Some (PStr (lit ''successfully created chart.png''))\<rparr>,
         \<lparr>tool = Some (lit ''sentiment_analyzer''), status = Some (lit ''success''),
          output_value = Some (PStr (lit ''neutral''))\<rparr>] = Inr a
       \<and> a = pre @ resources_heading @ mid @ [0x1F4C8] @ lit '' ''
             @ lit ''successfully created chart.png'' @ [10] @ post"
proof -
  let ?r = "\<lparr>tool = Some (lit ''chart_generator''), status = Some (lit ''failure''),
          output_value = Some (PStr (lit ''successfully created chart.png''))\<rparr>"
  let ?rs = "[?r,
         \<lparr>tool = Some (lit ''sentiment_analyzer''), status = Some (lit ''success''),
          output_value = Some (PStr (lit ''neutral''))\<rparr>]"
  have 1: "?r \<in> set ?rs" by simp
  have 2: "status ?r = Some (lit ''failure'')" by simp
  have 3: "output_value ?r = Some (PStr (lit ''successfully created chart.png''))" by simp
  have 4: "sublist (lit ''successfully created chart.png'') (lit ''successfully created chart.png'')"
    by simp
  have 5: "collect_outputs ?rs \<noteq> []"
    by (simp add: collect_outputs_def store_result_def is_success_def get_output_def tool_name_def
          lit_Cons lit_Nil)
  have t: "list_all text_output ?rs" by (simp add: text_output_def get_output_def)
  show ?thesis
    using failed_record_still_lists_chart [OF 1 2 3 4 5, of "lit ''moon''"] t
    by blast
qed

text \<open>
  Claim C7 as stated fails when the failed record is the only one: no record passes the
  filter, the answer is the fixed notice, and it lists no resource.
\<close>

theorem failed_record_alone_gives_notice:
  "synthesize_answer (lit ''q'')
     [\<lparr>tool = Some (lit ''chart_generator''), status = Some (lit ''failure''),
       output_value = Some (PStr (lit ''successfully created chart.png''))\<rparr>]
     = Inr no_results_notice
   \<and> \<not> sublist (lit ''Generated Resources'') no_results_notice
   \<and> \<not> sublist (lit ''chart.png'') no_results_notice"
  by (simp add: synthesize_answer_def collect_outputs_def store_result_def is_success_def
        no_results_notice_def lit_def sublist_Cons_right)

section \<open>The answer when nothing usable came back\<close>

text \<open>
  Claim C4. If every record has status failure, or every record with status success has a
  text output that starts with \<open>Error:\<close>, then \<open>synthesize_answer\<close> returns the fixed
  notice and raises nothing.
\<close>

theorem total_failure_notice:
  assumes "(\<forall>r\<in>set rs. status r = Some (lit ''failure'')) \<or>
           (\<forall>r\<in>set rs. status r = Some (lit ''success'') \<longrightarrow>
              (\<exists>t. output_value r = Some (PStr t) \<and> prefix (lit ''Error:'') t))"
  shows "synthesize_answer q rs = Inr no_results_notice"
proof -
  have "\<forall>r\<in>set rs. \<not> qualifies r"
    using assms by (auto simp: qualifies_def is_success_def get_output_def lit_def)
  then have "collect_outputs rs = []"
    by (simp add: collect_outputs_def collect_outputs_none)
  then show ?thesis by (simp add: synthesize_answer_def)
qed

theorem total_failure_notice_witness:
  "synthesize_answer (lit ''q'')
     [\<lparr>tool = Some (lit ''news_fetcher''), status = Some (lit ''failure''), output_value = Some (PStr (lit ''timeout''))\<rparr>,
      \<lparr>tool = Some (lit ''qa_engine''), status = Some (lit ''failure''), output_value = None\<rparr>]
     = Inr no_results_notice
   \<and> synthesize_answer (lit ''q'')
     [\<lparr>tool = Some (lit ''news_fetcher''), status = Some (lit ''failure''), output_value = Some (PStr (lit ''timeout''))\<rparr>,
      \<lparr>tool = Some (lit ''qa_engine''), status = Some (lit ''success''), output_value = Some (PStr (lit ''Error: no key''))\<rparr>]
     = Inr no_results_notice"
proof
  show "synthesize_answer (lit ''q'')
     [\<lparr>tool = Some (lit ''news_fetcher''), status = Some (lit ''failure''), output_value = Some (PStr (lit ''timeout''))\<rparr>,
      \<lparr>tool = Some (lit ''qa_engine''), status = Some (lit ''failure''), output_value = None\<rparr>]
     = Inr no_results_notice"
    by (rule total_failure_notice) simp
  show "synthesize_answer (lit ''q'')
     [\<lparr>tool = Some (lit ''news_fetcher''), status = Some (lit ''failure''), output_value = Some (PStr (lit ''timeout''))\<rparr>,
      \<lparr>tool = Some (lit ''qa_engine''), status = Some (lit ''success''), output_value = Some (PStr (lit ''Error: no key''))\<rparr>]
     = Inr no_results_notice"
    by (rule total_failure_notice) (simp add: lit_def)
qed

text \<open>
  Claim C2 fails on the code. A success record with a mapping output passes the filter, and
  the scan for generated files then calls \<open>lower\<close> on the raw output: the call raises
  \<open>AttributeError\<close>. The same happens for an output that is neither text nor mapping,
  although the filter has coerced it to text.
\<close>

theorem mapping_output_raises:
  "synthesize_answer (lit ''q'')
     [\<lparr>tool = Some (lit ''x''), status = Some (lit ''success''), output_value = Some (PDict [] (lit ''{}''))\<rparr>]
     = Inl AttributeError
   \<and> synthesize_answer (lit ''q'')
     [\<lparr>tool = Some (lit ''x''), status = Some (lit ''success''), output_value = Some (POther (lit ''5''))\<rparr>]
     = Inl AttributeError"
  by (simp add: synthesize_answer_def collect_outputs_def store_result_def get_output_def is_success_def
        tool_name_def fallback_def fb_wikipedia_def fb_arxiv_def fb_news_def fb_sentiment_def lit_def)

section \<open>The executive summary\<close>

text \<open>
  Claim C8. When at least one record has status success, the summary ends with the clause
  giving the number of all success records, whatever their tool identifiers. For three
  success records of \<open>qa_engine\<close>, \<open>unknown_tool_x\<close> and \<open>wikipedia_search\<close> the summary
  is the two clauses of the recognised tools followed by a total of 3.
\<close>

theorem summary_total_counts_every_success:
  "(filter is_success rs \<noteq> [] \<longrightarrow>
      suffix (lit ''Total of '' @ str_nat (length (filter is_success rs))
              @ lit '' information sources consulted.'')
             (create_executive_summary q rs))
   \<and> create_executive_summary q
        [\<lparr>tool = Some (lit ''qa_engine''), status = Some (lit ''success''), output_value = o1\<rparr>,
         \<lparr>tool = Some (lit ''unknown_tool_x''), status = Some (lit ''success''), output_value = o2\<rparr>,
         \<lparr>tool = Some (lit ''wikipedia_search''), status = Some (lit ''success''), output_value = o3\<rparr>]
      = lit ''Regarding **'' @ q @ lit ''**: ''
        @ lit ''A direct answer has been provided based on available knowledge. ''
        @ lit ''Background information has been retrieved from Wikipedia. ''
        @ lit ''Total of 3 information sources consulted.''"
proof
  show "filter is_success rs \<noteq> [] \<longrightarrow>
      suffix (lit ''Total of '' @ str_nat (length (filter is_success rs))
              @ lit '' information sources consulted.'')
             (create_executive_summary q rs)"
    unfolding create_executive_summary_def Let_def successful_tools_def
    by (simp add: suffix_def del: str_nat.simps)
  show "create_executive_summary q
        [\<lparr>tool = Some (lit ''qa_engine''), status = Some (lit ''success''), output_value = o1\<rparr>,
         \<lparr>tool = Some (lit ''unknown_tool_x''), status = Some (lit ''success''), output_value = o2\<rparr>,
         \<lparr>tool = Some (lit ''wikipedia_search''), status = Some (lit ''success''), output_value = o3\<rparr>]
      = lit ''Regarding **'' @ q @ lit ''**: ''
        @ lit ''A direct answer has been provided based on available knowledge. ''
        @ lit ''Background information has been retrieved from Wikipedia. ''
        @ lit ''Total of 3 information sources consulted.''"
    by (simp add: create_executive_summary_def successful_tools_def is_success_def lit_def)
qed

theorem summary_total_counts_every_success_witness:
  "suffix (lit ''Total of 2 information sources consulted.'')
     (create_executive_summary (lit ''q'')
        [\<lparr>tool = Some (lit ''unknown_tool_x''), status = Some (lit ''success''), output_value = None\<rparr>,
         \<lparr>tool = Some (lit ''news_fetcher''), status = Some (lit ''failure''), output_value = None\<rparr>,
         \<lparr>tool = Some (lit ''other_tool''), status = Some (lit ''success''), output_value = None\<rparr>])"
  using summary_total_counts_every_success [of
        "[\<lparr>tool = Some (lit ''unknown_tool_x''), status = Some (lit ''success''), output_value = None\<rparr>,
         \<lparr>tool = Some (lit ''news_fetcher''), status = Some (lit ''failure''), output_value = None\<rparr>,
         \<lparr>tool = Some (lit ''other_tool''), status = Some (lit ''success''), output_value = None\<rparr>]" "lit ''q''"]
  by (simp add: is_success_def lit_def)

text \<open>
  Claim C10. For a single success record whose text output starts with \<open>Error:\<close>,
  \<open>synthesize_answer\<close> returns the fixed notice, while the summary counts the record and
  ends with a total of 1.
\<close>

theorem error_prefixed_success_notice_but_counted:
  assumes "prefix (lit ''Error:'') t"
  shows "synthesize_answer q [\<lparr>tool = Some nm, status = Some (lit ''success''), output_value = Some (PStr t)\<rparr>]
           = Inr no_results_notice
         \<and> suffix (lit ''Total of 1 information sources consulted.'')
             (create_executive_summary q
                [\<lparr>tool = Some nm, status = Some (lit ''success''), output_value = Some (PStr t)\<rparr>])"
proof
  show "synthesize_answer q [\<lparr>tool = Some nm, status = Some (lit ''success''), output_value = Some (PStr t)\<rparr>]
           = Inr no_results_notice"
    using assms
    by (simp add: synthesize_answer_def collect_outputs_def store_result_def get_output_def)
  show "suffix (lit ''Total of 1 information sources consulted.'')
             (create_executive_summary q
                [\<lparr>tool = Some nm, status = Some (lit ''success''), output_value = Some (PStr t)\<rparr>])"
    unfolding create_executive_summary_def Let_def successful_tools_def
    by (simp add: suffix_def is_success_def) (simp add: lit_def)
qed

theorem error_prefixed_success_notice_but_counted_witness:
  "prefix (lit ''Error:'') (lit ''Error: API key missing'')
   \<and> synthesize_answer (lit ''q'')
        [\<lparr>tool = Some (lit ''qa_engine''), status = Some (lit ''success''),
          output_value = Some (PStr (lit ''Error: API key missing''))\<rparr>]
       = Inr no_results_notice
   \<and> suffix (lit ''Total of 1 information sources consulted.'')
       (create_executive_summary (lit ''q'')
          [\<lparr>tool = Some (lit ''qa_engine''), status = Some (lit ''success''),
            output_value = Some (PStr (lit ''Error: API key missing''))\<rparr>])"
proof -
  have h: "prefix (lit ''Error:'') (lit ''Error: API key missing'')"
    by (simp add: lit_def)
  show ?thesis
    using h error_prefixed_success_notice_but_counted [OF h, where q = "lit ''q''" and nm = "lit ''qa_engine''"]
    by simp
qed

end
